theory Spec2Isabelle
  imports Complex_Main
begin

section \<open>The n8n SQLite to PostgreSQL migration script\<close>

text \<open>
  A shallow embedding of \<^verbatim>\<open>tools/dev-scripts/cmd-migrate-n8n-sqlite-to-postgres.py\<close>.
  Pure parts of the script (the lookup tables, \<^verbatim>\<open>map_column_name\<close>, the row
  transformation) are HOL functions.  The two databases are outside the script: every
  call that talks to one of them is a field of a \<open>backend\<close> record, a function from the
  state of the outside world to a result (or an exception) and a new state, so that the
  theorems hold for every behaviour of the databases.  What the script prints and which
  database calls it issues are collected in a list of events.
\<close>

subsection \<open>Values and exceptions\<close>

text \<open>
  The values the \<^verbatim>\<open>sqlite3\<close> module returns for a column are \<^verbatim>\<open>None\<close>, \<^verbatim>\<open>int\<close>,
  \<^verbatim>\<open>float\<close>, \<^verbatim>\<open>str\<close> and \<^verbatim>\<open>bytes\<close>; the script itself adds \<^verbatim>\<open>bool\<close>.  A float is
  represented by the real number it denotes (zero stands for both signed zeros; the
  non-finite floats are all truthy, like every non-zero real).
\<close>

datatype py_value =
    PyNone
  | PyInt int
  | PyFloat real
  | PyStr string
  | PyBytes "nat list"
  | PyBool bool

text \<open>Python's \<^verbatim>\<open>bool(value)\<close> on these types.\<close>

fun py_bool :: "py_value \<Rightarrow> bool" where
  "py_bool PyNone = False"
| "py_bool (PyInt i) = (i \<noteq> 0)"
| "py_bool (PyFloat x) = (x \<noteq> 0)"
| "py_bool (PyStr s) = (s \<noteq> [])"
| "py_bool (PyBytes b) = (b \<noteq> [])"
| "py_bool (PyBool b) = b"

fun is_str :: "py_value \<Rightarrow> bool" where
  "is_str (PyStr s) = True"
| "is_str v = False"

text \<open>
  An exception that is an instance of \<^verbatim>\<open>Exception\<close>: its class and its message.
\<close>

datatype error = PyException string string

subsection \<open>Strings\<close>

text \<open>
  Column and table names are ASCII identifiers.  \<^verbatim>\<open>str.lower\<close> maps \<^verbatim>\<open>A\<close>..\<^verbatim>\<open>Z\<close> to
  \<^verbatim>\<open>a\<close>..\<^verbatim>\<open>z\<close> and leaves every other ASCII character unchanged.
\<close>

definition lower_char :: "char \<Rightarrow> char" where
  "lower_char c =
     (case map_of (zip ''ABCDEFGHIJKLMNOPQRSTUVWXYZ'' ''abcdefghijklmnopqrstuvwxyz'') c of
        Some l \<Rightarrow> l
      | None \<Rightarrow> c)"

definition lower :: "string \<Rightarrow> string" where
  "lower s = map lower_char s"

subsection \<open>The lookup tables\<close>

definition MIGRATION_ORDER :: "string list" where
  "MIGRATION_ORDER =
    [''migrations'', ''settings'', ''role'', ''scope'', ''role_scope'', ''user'',
     ''auth_identity'', ''auth_provider_sync_history'', ''user_api_keys'',
     ''project'', ''project_relation'', ''folder'',
     ''tag_entity'', ''annotation_tag_entity'', ''folder_tag'',
     ''credentials_entity'', ''shared_credentials'',
     ''workflow_entity'', ''shared_workflow'', ''workflow_history'',
     ''workflow_statistics'', ''workflows_tags'', ''workflow_dependency'',
     ''webhook_entity'',
     ''execution_entity'', ''execution_data'', ''execution_metadata'',
     ''execution_annotations'', ''execution_annotation_tags'',
     ''variables'', ''processed_data'', ''data_table'', ''data_table_column'',
     ''test_run'', ''test_case_execution'',
     ''installed_packages'', ''installed_nodes'',
     ''event_destinations'',
     ''insights_metadata'', ''insights_raw'', ''insights_by_period'',
     ''chat_hub_sessions'', ''chat_hub_messages'',
     ''invalid_auth_token'']"

text \<open>
  A dict literal is an association list; no key is written twice in the script
  (\<open>COLUMN_MAPPINGS_distinct\<close> below), so \<^const>\<open>map_of\<close> is the dict's lookup.
\<close>

definition COLUMN_MAPPINGS :: "(string \<times> (string \<times> string) list) list" where
  "COLUMN_MAPPINGS =
    [(''installed_packages'',
        [(''packagename'', ''packageName''), (''installedversion'', ''installedVersion''),
         (''authorname'', ''authorName''), (''authoremail'', ''authorEmail'')]),
     (''installed_nodes'', [(''latestversion'', ''latestVersion'')]),
     (''auth_identity'',
        [(''userid'', ''userId''), (''providerid'', ''providerId''),
         (''providertype'', ''providerType''), (''createdat'', ''createdAt''),
         (''updatedat'', ''updatedAt'')]),
     (''auth_provider_sync_history'', [(''providertype'', ''providerType'')]),
     (''tag_entity'', [(''createdat'', ''createdAt''), (''updatedat'', ''updatedAt'')]),
     (''workflows_tags'', [(''workflowid'', ''workflowId''), (''tagid'', ''tagId'')]),
     (''workflow_statistics'',
        [(''workflowid'', ''workflowId''), (''latestEvent'', ''latestEvent''),
         (''rootcount'', ''rootCount'')]),
     (''webhook_entity'',
        [(''workflowid'', ''workflowId''), (''webhookpath'', ''webhookPath''),
         (''webhookid'', ''webhookId''), (''pathlength'', ''pathLength'')]),
     (''execution_data'', [(''workflowdata'', ''workflowData'')]),
     (''workflow_history'',
        [(''versionid'', ''versionId''), (''workflowid'', ''workflowId''),
         (''createdat'', ''createdAt''), (''updatedat'', ''updatedAt'')]),
     (''credentials_entity'', [(''createdat'', ''createdAt''), (''updatedat'', ''updatedAt'')]),
     (''shared_credentials'',
        [(''credentialsid'', ''credentialsId''), (''projectid'', ''projectId'')]),
     (''shared_workflow'', [(''workflowid'', ''workflowId''), (''projectid'', ''projectId'')]),
     (''execution_metadata'', [(''executionid'', ''executionId'')]),
     (''invalid_auth_token'', []),
     (''execution_annotations'', [(''executionid'', ''executionId'')]),
     (''annotation_tag_entity'',
        [(''createdat'', ''createdAt''), (''updatedat'', ''updatedAt'')]),
     (''execution_annotation_tags'',
        [(''annotationid'', ''annotationId''), (''tagid'', ''tagId'')]),
     (''execution_entity'',
        [(''workflowid'', ''workflowId''), (''retryof'', ''retryOf''),
         (''retrysuccessid'', ''retrySuccessId''), (''startedat'', ''startedAt''),
         (''stoppedat'', ''stoppedAt''), (''waitTill'', ''waitTill''),
         (''workflowdata'', ''workflowData''), (''customdata'', ''customData'')]),
     (''processed_data'', [(''workflowid'', ''workflowId'')]),
     (''folder'',
        [(''parentfolderid'', ''parentFolderId''), (''projectid'', ''projectId''),
         (''createdat'', ''createdAt''), (''updatedat'', ''updatedAt'')]),
     (''folder_tag'', [(''folderid'', ''folderId''), (''tagid'', ''tagId'')]),
     (''workflow_entity'',
        [(''createdat'', ''createdAt''), (''updatedat'', ''updatedAt''),
         (''versionid'', ''versionId''), (''triggercount'', ''triggerCount''),
         (''parentfolderid'', ''parentFolderId''), (''pindata'', ''pinData''),
         (''staticdata'', ''staticData'')]),
     (''insights_metadata'',
        [(''metaid'', ''metaId''), (''workflowid'', ''workflowId''),
         (''projectid'', ''projectId''), (''workflowname'', ''workflowName''),
         (''projectname'', ''projectName'')]),
     (''test_run'',
        [(''workflowid'', ''workflowId''), (''triggercount'', ''triggerCount''),
         (''runcreatedat'', ''runCreatedAt''), (''completedat'', ''completedAt''),
         (''errorcode'', ''errorCode''), (''errordetails'', ''errorDetails'')]),
     (''user'',
        [(''firstname'', ''firstName''), (''lastname'', ''lastName''),
         (''createdat'', ''createdAt''), (''updatedat'', ''updatedAt''),
         (''personalizationanswers'', ''personalizationAnswers''),
         (''roleslug'', ''roleSlug''), (''ispending'', ''isPending''),
         (''mfasecret'', ''mfaSecret''), (''mfaenabled'', ''mfaEnabled''),
         (''mfarecoverycodes'', ''mfaRecoveryCodes'')]),
     (''test_case_execution'',
        [(''testrunid'', ''testRunId''), (''executionid'', ''executionId''),
         (''errorcode'', ''errorCode''), (''errordetails'', ''errorDetails''),
         (''runcreatedat'', ''runCreatedAt''), (''completedat'', ''completedAt'')]),
     (''project_relation'', [(''projectid'', ''projectId''), (''userid'', ''userId'')]),
     (''data_table'',
        [(''projectid'', ''projectId''), (''createdat'', ''createdAt''),
         (''updatedat'', ''updatedAt'')]),
     (''data_table_column'', [(''datatableid'', ''dataTableId'')]),
     (''role_scope'', [(''roleslug'', ''roleSlug''), (''scopeslug'', ''scopeSlug'')]),
     (''user_api_keys'',
        [(''userid'', ''userId''), (''apikey'', ''apiKey''),
         (''createdat'', ''createdAt''), (''updatedat'', ''updatedAt'')]),
     (''insights_raw'', [(''metaid'', ''metaId''), (''createdat'', ''createdAt'')]),
     (''insights_by_period'',
        [(''metaid'', ''metaId''), (''periodunit'', ''periodUnit''),
         (''periodfrom'', ''periodFrom''), (''periodto'', ''periodTo'')]),
     (''chat_hub_sessions'',
        [(''ownerid'', ''ownerId''), (''credentialid'', ''credentialId''),
         (''workflowid'', ''workflowId''), (''createdat'', ''createdAt''),
         (''updatedat'', ''updatedAt'')]),
     (''workflow_dependency'',
        [(''workflowid'', ''workflowId''), (''workflowversionid'', ''workflowVersionId''),
         (''dependencytype'', ''dependencyType''), (''dependencykey'', ''dependencyKey''),
         (''dependencyinfo'', ''dependencyInfo'')]),
     (''chat_hub_messages'',
        [(''sessionid'', ''sessionId''), (''previousmessageid'', ''previousMessageId''),
         (''revisionofmessageid'', ''revisionOfMessageId''),
         (''retryofmessageid'', ''retryOfMessageId''), (''workflowid'', ''workflowId''),
         (''executionid'', ''executionId''), (''createdat'', ''createdAt''),
         (''updatedat'', ''updatedAt'')])]"

subsection \<open>\<^verbatim>\<open>N8NMigrator.map_column_name\<close>\<close>

definition map_column_name :: "string \<Rightarrow> string \<Rightarrow> string" where
  "map_column_name table sqlite_col =
     (case map_of COLUMN_MAPPINGS table of
        Some m \<Rightarrow> (case map_of m (lower sqlite_col) of Some pg \<Rightarrow> pg | None \<Rightarrow> sqlite_col)
      | None \<Rightarrow> sqlite_col)"

subsection \<open>Rows of the source, dicts\<close>

text \<open>
  A \<^verbatim>\<open>sqlite3.Row\<close>: the column names of the result, in order, each with its value.
  \<^verbatim>\<open>row[key]\<close> with a string key returns the value of the first column whose name
  equals the key up to ASCII case, and raises \<^verbatim>\<open>IndexError\<close> when there is none.
\<close>

type_synonym row = "(string \<times> py_value) list"

definition row_keys :: "row \<Rightarrow> string list" where
  "row_keys r = map fst r"

fun row_getitem :: "row \<Rightarrow> string \<Rightarrow> error + py_value" where
  "row_getitem [] key = Inl (PyException ''IndexError'' ''No item with that key'')"
| "row_getitem ((k, v) # r) key =
     (if lower k = lower key then Inr v else row_getitem r key)"

text \<open>
  A Python dict keeps its keys in insertion order; \<^verbatim>\<open>d[k] = v\<close> replaces the value of
  a key that is present, in place, and appends a new key at the end.
\<close>

fun dict_setitem :: "('k \<times> 'v) list \<Rightarrow> 'k \<Rightarrow> 'v \<Rightarrow> ('k \<times> 'v) list" where
  "dict_setitem [] k v = [(k, v)]"
| "dict_setitem ((k', v') # d) k v =
     (if k' = k then (k', v) # d else (k', v') # dict_setitem d k v)"

subsection \<open>Configuration, events, the databases\<close>

record pg_config =
  host :: string
  port :: int
  database :: string
  user :: string
  password :: string
  schema :: string

text \<open>
  What a run does that can be observed: the lines it prints (the \<open>Print_\<close> events,
  one for each \<^verbatim>\<open>print\<close> or group of adjacent ones, with the values they show), the
  trace written to the error stream, and every call that reaches a database (the
  \<open>Db_\<close> events, recorded whether the call returns or raises).  \<open>Json_Loads s ok\<close>
  is a call of \<^verbatim>\<open>json.loads(s)\<close> and whether it returned.
\<close>

datatype event =
    Print_Connecting_Sqlite string
  | Db_Sqlite_Connect string
  | Print_Connecting_Pg string int string
  | Db_Pg_Connect
  | Print_Migrating string
  | Db_Get_Columns string string
  | Print_Not_Found string
  | Db_Count string
  | Print_Empty string
  | Print_Found int
  | Db_Select_All string
  | Json_Loads string bool
  | Db_Insert string string "string list" "py_value list"
  | Print_Row_Error error
  | Print_Columns "string list"
  | Print_Values "py_value list"
  | Db_Rollback
  | Db_Commit
  | Print_Migrated nat nat
  | Print_Table_Error string error
  | Print_Starting
  | Print_Summary "(string \<times> nat \<times> nat) list" nat nat
  | Print_Verification
  | Db_Pg_Count string string
  | Print_Count string int
  | Print_Completed
  | Print_Failed error
  | Stderr_Traceback error
  | Db_Sqlite_Close
  | Db_Pg_Close

text \<open>
  The outside world, of any type \<open>'w\<close>.  Each field is one kind of call of the script
  on a connection or a cursor: it returns normally or raises (\<open>Some e\<close>, \<open>Inl e\<close>), and
  changes the world.  \<open>exec_get_columns\<close> is the catalog query of
  \<^verbatim>\<open>get_table_columns\<close> with its \<^verbatim>\<open>fetchall\<close>, \<open>exec_row_count\<close> the
  \<^verbatim>\<open>SELECT COUNT(*)\<close> on the source with its \<^verbatim>\<open>fetchone()[0]\<close>,
  \<open>exec_select_all\<close> the \<^verbatim>\<open>SELECT *\<close> with its \<^verbatim>\<open>fetchall\<close>, \<open>exec_insert\<close>
  the \<^verbatim>\<open>INSERT ... ON CONFLICT DO NOTHING\<close> into schema and table with the columns
  and values given, \<open>exec_pg_count\<close> a count query of \<^verbatim>\<open>verify_migration\<close>.
  Creating and closing cursors and closing a connection are client-side bookkeeping
  and taken not to raise.  \<open>json_loads s\<close> tells whether \<^verbatim>\<open>json.loads(s)\<close> returns.
\<close>

record 'w backend =
  sqlite3_connect :: "string \<Rightarrow> 'w \<Rightarrow> error option \<times> 'w"
  psycopg2_connect :: "pg_config \<Rightarrow> 'w \<Rightarrow> error option \<times> 'w"
  exec_get_columns :: "string \<Rightarrow> string \<Rightarrow> 'w \<Rightarrow> (error + string list) \<times> 'w"
  exec_row_count :: "string \<Rightarrow> 'w \<Rightarrow> (error + int) \<times> 'w"
  exec_select_all :: "string \<Rightarrow> 'w \<Rightarrow> (error + row list) \<times> 'w"
  exec_insert :: "string \<Rightarrow> string \<Rightarrow> string list \<Rightarrow> py_value list \<Rightarrow> 'w \<Rightarrow> error option \<times> 'w"
  pg_rollback :: "'w \<Rightarrow> error option \<times> 'w"
  pg_commit :: "'w \<Rightarrow> error option \<times> 'w"
  exec_pg_count :: "string \<Rightarrow> string \<Rightarrow> 'w \<Rightarrow> (error + int) \<times> 'w"
  sqlite_close :: "'w \<Rightarrow> 'w"
  pg_close :: "'w \<Rightarrow> 'w"
  json_loads :: "string \<Rightarrow> bool"

subsection \<open>The row transformation (the inner loop of \<^verbatim>\<open>migrate_table\<close>)\<close>

definition boolean_columns :: "string list" where
  "boolean_columns =
     [''active'', ''finished'', ''loadOnStartup'', ''systemRole'', ''disabled'',
      ''mfaEnabled'', ''isManaged'', ''isPending'', ''isArchived'']"

definition json_columns :: "string list" where
  "json_columns =
     [''nodes'', ''connections'', ''settings'', ''staticData'', ''pinData'', ''meta'',
      ''workflowData'']"

text \<open>
  The coercion of lines 383-384, and the JSON check of lines 386-391: the check calls
  \<^verbatim>\<open>json.loads\<close>, drops its result, swallows its exception, and assigns nothing.
\<close>

definition coerce_boolean :: "string \<Rightarrow> py_value \<Rightarrow> py_value" where
  "coerce_boolean pg_col v =
     (if pg_col \<in> set boolean_columns \<and> v \<noteq> PyNone then PyBool (py_bool v) else v)"

definition check_json :: "(string \<Rightarrow> bool) \<Rightarrow> string \<Rightarrow> py_value \<Rightarrow> event list" where
  "check_json loads pg_col v =
     (case v of
        PyStr s \<Rightarrow> (if pg_col \<in> set json_columns then [Json_Loads s (loads s)] else [])
      | _ \<Rightarrow> [])"

text \<open>
  \<^verbatim>\<open>for key in row.keys(): ...\<close> over the keys still to visit, with the dict \<open>data\<close>
  built so far.
\<close>

fun transform_keys ::
  "(string \<Rightarrow> bool) \<Rightarrow> string \<Rightarrow> string list \<Rightarrow> row \<Rightarrow> string list \<Rightarrow>
   (string \<times> py_value) list \<Rightarrow> (error + (string \<times> py_value) list) \<times> event list" where
  "transform_keys loads table_name pg_columns row [] data = (Inr data, [])"
| "transform_keys loads table_name pg_columns row (key # keys) data =
     (let pg_col = map_column_name table_name key in
      if pg_col \<in> set pg_columns then
        (case row_getitem row key of
           Inl e \<Rightarrow> (Inl e, [])
         | Inr v0 \<Rightarrow>
             (let v = coerce_boolean pg_col v0;
                  evs = check_json loads pg_col v
              in case transform_keys loads table_name pg_columns row keys
                        (dict_setitem data pg_col v) of
                   (r, evs') \<Rightarrow> (r, evs @ evs')))
      else transform_keys loads table_name pg_columns row keys data)"

definition transform_row ::
  "(string \<Rightarrow> bool) \<Rightarrow> string \<Rightarrow> string list \<Rightarrow> row \<Rightarrow>
   (error + (string \<times> py_value) list) \<times> event list" where
  "transform_row loads table_name pg_columns row =
     transform_keys loads table_name pg_columns row (row_keys row) []"

subsection \<open>One row (the body of the outer loop of \<^verbatim>\<open>migrate_table\<close>)\<close>

datatype row_outcome = Row_Inserted | Row_Skipped | Row_Raised error

text \<open>
  \<open>Row_Inserted\<close> is \<^verbatim>\<open>inserted += 1\<close>, \<open>Row_Skipped\<close> is \<^verbatim>\<open>skipped += 1\<close> followed by
  \<^verbatim>\<open>continue\<close>, \<open>Row_Raised\<close> an exception that leaves the loop.  The columns are the
  keys of \<open>data\<close> and the values are \<^verbatim>\<open>[data[col] for col in columns]\<close>, the values of
  \<open>data\<close> in the order of its keys.
\<close>

definition migrate_row ::
  "'w backend \<Rightarrow> pg_config \<Rightarrow> string \<Rightarrow> string list \<Rightarrow> row \<Rightarrow> 'w \<Rightarrow>
   row_outcome \<times> event list \<times> 'w" where
  "migrate_row B cfg table_name pg_columns row w =
     (case transform_row (json_loads B) table_name pg_columns row of
        (Inl e, evs) \<Rightarrow> (Row_Raised e, evs, w)
      | (Inr data, evs) \<Rightarrow>
          if data = [] then (Row_Skipped, evs, w)
          else
            (let columns = map fst data;
                 vals = map snd data;
                 ins = Db_Insert (schema cfg) table_name columns vals
             in case exec_insert B (schema cfg) table_name columns vals w of
                  (None, w1) \<Rightarrow> (Row_Inserted, evs @ [ins], w1)
                | (Some e, w1) \<Rightarrow>
                    (let report = [ins, Print_Row_Error e, Print_Columns columns,
                                   Print_Values (take 3 vals), Db_Rollback]
                     in case pg_rollback B w1 of
                          (None, w2) \<Rightarrow> (Row_Skipped, evs @ report, w2)
                        | (Some e2, w2) \<Rightarrow> (Row_Raised e2, evs @ report, w2))))"

fun migrate_rows ::
  "'w backend \<Rightarrow> pg_config \<Rightarrow> string \<Rightarrow> string list \<Rightarrow> row list \<Rightarrow> nat \<Rightarrow> nat \<Rightarrow> 'w \<Rightarrow>
   (error + nat \<times> nat) \<times> event list \<times> 'w" where
  "migrate_rows B cfg table_name pg_columns [] inserted skipped w =
     (Inr (inserted, skipped), [], w)"
| "migrate_rows B cfg table_name pg_columns (row # rows) inserted skipped w =
     (case migrate_row B cfg table_name pg_columns row w of
        (Row_Inserted, evs, w1) \<Rightarrow>
          (case migrate_rows B cfg table_name pg_columns rows (inserted + 1) skipped w1 of
             (r, evs', w2) \<Rightarrow> (r, evs @ evs', w2))
      | (Row_Skipped, evs, w1) \<Rightarrow>
          (case migrate_rows B cfg table_name pg_columns rows inserted (skipped + 1) w1 of
             (r, evs', w2) \<Rightarrow> (r, evs @ evs', w2))
      | (Row_Raised e, evs, w1) \<Rightarrow> (Inl e, evs, w1))"

subsection \<open>\<^verbatim>\<open>N8NMigrator.migrate_table\<close>\<close>

text \<open>The body of the \<^verbatim>\<open>try\<close>: it returns a pair of counters or raises.\<close>

definition migrate_table_try ::
  "'w backend \<Rightarrow> pg_config \<Rightarrow> string \<Rightarrow> 'w \<Rightarrow> (error + nat \<times> nat) \<times> event list \<times> 'w" where
  "migrate_table_try B cfg table_name w =
     (case exec_get_columns B (schema cfg) table_name w of
        (Inl e, w1) \<Rightarrow> (Inl e, [Db_Get_Columns (schema cfg) table_name], w1)
      | (Inr pg_columns, w1) \<Rightarrow>
          if pg_columns = [] then
            (Inr (0, 0), [Db_Get_Columns (schema cfg) table_name, Print_Not_Found table_name], w1)
          else
            (case exec_row_count B table_name w1 of
               (Inl e, w2) \<Rightarrow>
                 (Inl e, [Db_Get_Columns (schema cfg) table_name, Db_Count table_name], w2)
             | (Inr total_rows, w2) \<Rightarrow>
                 if total_rows = 0 then
                   (Inr (0, 0),
                    [Db_Get_Columns (schema cfg) table_name, Db_Count table_name,
                     Print_Empty table_name], w2)
                 else
                   (let pre = [Db_Get_Columns (schema cfg) table_name, Db_Count table_name,
                               Print_Found total_rows, Db_Select_All table_name]
                    in case exec_select_all B table_name w2 of
                         (Inl e, w3) \<Rightarrow> (Inl e, pre, w3)
                       | (Inr rows, w3) \<Rightarrow>
                           (case migrate_rows B cfg table_name pg_columns rows 0 0 w3 of
                              (Inl e, evs, w4) \<Rightarrow> (Inl e, pre @ evs, w4)
                            | (Inr (inserted, skipped), evs, w4) \<Rightarrow>
                                (case pg_commit B w4 of
                                   (Some e, w5) \<Rightarrow> (Inl e, pre @ evs @ [Db_Commit], w5)
                                 | (None, w5) \<Rightarrow>
                                     (Inr (inserted, skipped),
                                      pre @ evs @ [Db_Commit, Print_Migrated inserted skipped],
                                      w5))))))"

text \<open>
  The whole method: the handler of the \<^verbatim>\<open>try\<close> prints, rolls back and returns
  \<^verbatim>\<open>(0, 0)\<close>; an exception of that rollback is not handled and leaves the method.
\<close>

definition migrate_table ::
  "'w backend \<Rightarrow> pg_config \<Rightarrow> string \<Rightarrow> 'w \<Rightarrow> (error + nat \<times> nat) \<times> event list \<times> 'w" where
  "migrate_table B cfg table_name w =
     (case migrate_table_try B cfg table_name w of
        (Inr counts, evs, w1) \<Rightarrow> (Inr counts, Print_Migrating table_name # evs, w1)
      | (Inl e, evs, w1) \<Rightarrow>
          (let evs' = Print_Migrating table_name # evs @
                      [Print_Table_Error table_name e, Db_Rollback]
           in case pg_rollback B w1 of
                (None, w2) \<Rightarrow> (Inr (0, 0), evs', w2)
              | (Some e2, w2) \<Rightarrow> (Inl e2, evs', w2)))"

subsection \<open>\<^verbatim>\<open>N8NMigrator.migrate_all\<close>\<close>

text \<open>
  \<^verbatim>\<open>for table in MIGRATION_ORDER: ...\<close> over the tables still to visit, with
  \<^verbatim>\<open>self.stats\<close> and the two totals.  \<^verbatim>\<open>migrate_table\<close> is called outside any
  \<^verbatim>\<open>try\<close>: an exception that leaves it leaves the loop and \<^verbatim>\<open>migrate_all\<close>.
\<close>

fun migrate_tables ::
  "'w backend \<Rightarrow> pg_config \<Rightarrow> string list \<Rightarrow> (string \<times> nat \<times> nat) list \<Rightarrow> nat \<Rightarrow> nat \<Rightarrow> 'w \<Rightarrow>
   (error + (string \<times> nat \<times> nat) list \<times> nat \<times> nat) \<times> event list \<times> 'w" where
  "migrate_tables B cfg [] stats total_inserted total_skipped w =
     (Inr (stats, total_inserted, total_skipped), [], w)"
| "migrate_tables B cfg (table # tables) stats total_inserted total_skipped w =
     (case migrate_table B cfg table w of
        (Inl e, evs, w1) \<Rightarrow> (Inl e, evs, w1)
      | (Inr (inserted, skipped), evs, w1) \<Rightarrow>
          (case migrate_tables B cfg tables (dict_setitem stats table (inserted, skipped))
                  (total_inserted + inserted) (total_skipped + skipped) w1 of
             (r, evs', w2) \<Rightarrow> (r, evs @ evs', w2)))"

definition migrate_all ::
  "'w backend \<Rightarrow> pg_config \<Rightarrow> (string \<times> nat \<times> nat) list \<Rightarrow> 'w \<Rightarrow>
   (error + (string \<times> nat \<times> nat) list) \<times> event list \<times> 'w" where
  "migrate_all B cfg stats w =
     (case migrate_tables B cfg MIGRATION_ORDER stats 0 0 w of
        (Inl e, evs, w1) \<Rightarrow> (Inl e, Print_Starting # evs, w1)
      | (Inr (stats', total_inserted, total_skipped), evs, w1) \<Rightarrow>
          (Inr stats',
           Print_Starting # evs @
             [Print_Summary (filter (\<lambda>(t, i, s). i > 0 \<or> s > 0) stats')
                total_inserted total_skipped],
           w1))"

subsection \<open>\<^verbatim>\<open>connect\<close>, \<^verbatim>\<open>verify_migration\<close>, \<^verbatim>\<open>close\<close> and \<^verbatim>\<open>main\<close>\<close>

text \<open>
  The fields of the migrator object: \<open>sqlite_conn\<close> and \<open>pg_conn\<close> tell whether the
  attribute holds a connection (\<open>False\<close> is \<^verbatim>\<open>None\<close>).
\<close>

record migrator =
  sqlite_conn :: bool
  pg_conn :: bool
  stats :: "(string \<times> nat \<times> nat) list"

definition connect ::
  "'w backend \<Rightarrow> string \<Rightarrow> pg_config \<Rightarrow> migrator \<Rightarrow> 'w \<Rightarrow>
   error option \<times> migrator \<times> event list \<times> 'w" where
  "connect B sqlite_path cfg m w =
     (let evs1 = [Print_Connecting_Sqlite sqlite_path, Db_Sqlite_Connect sqlite_path]
      in case sqlite3_connect B sqlite_path w of
           (Some e, w1) \<Rightarrow> (Some e, m, evs1, w1)
         | (None, w1) \<Rightarrow>
             (let m1 = m\<lparr>sqlite_conn := True\<rparr>;
                  evs2 = evs1 @ [Print_Connecting_Pg (host cfg) (port cfg) (database cfg),
                                 Db_Pg_Connect]
              in case psycopg2_connect B cfg w1 of
                   (Some e, w2) \<Rightarrow> (Some e, m1, evs2, w2)
                 | (None, w2) \<Rightarrow> (None, m1\<lparr>pg_conn := True\<rparr>, evs2, w2)))"

definition verify_migration ::
  "'w backend \<Rightarrow> pg_config \<Rightarrow> 'w \<Rightarrow> error option \<times> event list \<times> 'w" where
  "verify_migration B cfg w =
     (let q1 = [Print_Verification, Db_Pg_Count (schema cfg) ''workflow_entity'']
      in case exec_pg_count B (schema cfg) ''workflow_entity'' w of
           (Inl e, w1) \<Rightarrow> (Some e, q1, w1)
         | (Inr workflow_count, w1) \<Rightarrow>
             (let q2 = q1 @ [Print_Count ''Workflows'' workflow_count,
                             Db_Pg_Count (schema cfg) ''credentials_entity'']
              in case exec_pg_count B (schema cfg) ''credentials_entity'' w1 of
                   (Inl e, w2) \<Rightarrow> (Some e, q2, w2)
                 | (Inr cred_count, w2) \<Rightarrow>
                     (let q3 = q2 @ [Print_Count ''Credentials'' cred_count,
                                     Db_Pg_Count (schema cfg) ''execution_entity'']
                      in case exec_pg_count B (schema cfg) ''execution_entity'' w2 of
                           (Inl e, w3) \<Rightarrow> (Some e, q3, w3)
                         | (Inr exec_count, w3) \<Rightarrow>
                             (None, q3 @ [Print_Count ''Executions'' exec_count], w3))))"

definition close :: "'w backend \<Rightarrow> migrator \<Rightarrow> 'w \<Rightarrow> event list \<times> 'w" where
  "close B m w =
     (case (if sqlite_conn m then ([Db_Sqlite_Close], sqlite_close B w) else ([], w)) of
        (evs1, w1) \<Rightarrow>
          (case (if pg_conn m then ([Db_Pg_Close], pg_close B w1) else ([], w1)) of
             (evs2, w2) \<Rightarrow> (evs1 @ evs2, w2)))"

text \<open>
  The body of the \<^verbatim>\<open>try\<close> of \<^verbatim>\<open>main\<close>, on a new migrator: the exception that leaves
  it, if any, and the migrator as the calls left it.  (When \<^verbatim>\<open>migrate_all\<close> raises,
  the entries it had written to \<^verbatim>\<open>self.stats\<close> are not kept here: nothing reads them
  afterwards, \<^verbatim>\<open>close\<close> looks at the two connections only.)
\<close>

definition main_try ::
  "'w backend \<Rightarrow> string \<Rightarrow> pg_config \<Rightarrow> 'w \<Rightarrow> error option \<times> migrator \<times> event list \<times> 'w" where
  "main_try B sqlite_path cfg w =
     (case connect B sqlite_path cfg \<lparr>sqlite_conn = False, pg_conn = False, stats = []\<rparr> w of
        (Some e, m, evs1, w1) \<Rightarrow> (Some e, m, evs1, w1)
      | (None, m, evs1, w1) \<Rightarrow>
          (case migrate_all B cfg (stats m) w1 of
             (Inl e, evs2, w2) \<Rightarrow> (Some e, m, evs1 @ evs2, w2)
           | (Inr stats', evs2, w2) \<Rightarrow>
               (case verify_migration B cfg w2 of
                  (Some e, evs3, w3) \<Rightarrow> (Some e, m\<lparr>stats := stats'\<rparr>, evs1 @ evs2 @ evs3, w3)
                | (None, evs3, w3) \<Rightarrow>
                    (None, m\<lparr>stats := stats'\<rparr>, evs1 @ evs2 @ evs3 @ [Print_Completed], w3))))"

text \<open>
  \<^verbatim>\<open>main\<close> after the arguments are parsed; its result is the exit code of the process
  (\<^verbatim>\<open>sys.exit(main())\<close>).
\<close>

definition main :: "'w backend \<Rightarrow> string \<Rightarrow> pg_config \<Rightarrow> 'w \<Rightarrow> int \<times> event list \<times> 'w" where
  "main B sqlite_path cfg w =
     (case main_try B sqlite_path cfg w of
        (None, m, evs, w1) \<Rightarrow>
          (case close B m w1 of (evs', w2) \<Rightarrow> (0, evs @ evs', w2))
      | (Some e, m, evs, w1) \<Rightarrow>
          (case close B m w1 of
             (evs', w2) \<Rightarrow> (1, evs @ [Print_Failed e, Stderr_Traceback e] @ evs', w2)))"

subsection \<open>Reading a run\<close>



subsection \<open>A database pair to run the script on\<close>

text \<open>
  A small concrete world for the examples: a destination catalog, the tables of the
  source, destination columns that reject \<^verbatim>\<open>NULL\<close>, and the destination's transaction
  as the DB-API describes it (the statements executed since the last commit or
  rollback, and the committed ones).  \<open>sim_pg_calls\<close> is how many more calls the
  destination connection answers before it is lost (\<open>None\<close>: it is never lost); on a lost
  connection every call raises.  \<open>sim_pg_up\<close> tells whether the destination accepts a
  connection.
\<close>

record sim =
  sim_catalog :: "(string \<times> string list) list"
  sim_source :: "(string \<times> row list) list"
  sim_not_null :: "string list"
  sim_pending :: "(string \<times> string list \<times> py_value list) list"
  sim_committed :: "(string \<times> string list \<times> py_value list) list"
  sim_pg_calls :: "nat option"
  sim_pg_up :: bool

definition connection_lost :: error where
  "connection_lost = PyException ''OperationalError'' ''server closed the connection''"

definition no_such_table :: error where
  "no_such_table = PyException ''OperationalError'' ''no such table''"

definition not_null_violation :: error where
  "not_null_violation = PyException ''IntegrityError'' ''null value violates not-null constraint''"

definition undefined_table :: error where
  "undefined_table = PyException ''UndefinedTable'' ''relation does not exist''"

definition connection_refused :: error where
  "connection_refused = PyException ''OperationalError'' ''connection refused''"

text \<open>One call on the destination connection: it raises when the connection is lost.\<close>

definition sim_pg_call :: "sim \<Rightarrow> bool \<times> sim" where
  "sim_pg_call w =
     (case sim_pg_calls w of
        None \<Rightarrow> (True, w)
      | Some 0 \<Rightarrow> (False, w)
      | Some (Suc n) \<Rightarrow> (True, w\<lparr>sim_pg_calls := Some n\<rparr>))"

definition sim_get_columns :: "string \<Rightarrow> string \<Rightarrow> sim \<Rightarrow> (error + string list) \<times> sim" where
  "sim_get_columns sch t w =
     (case sim_pg_call w of
        (False, w1) \<Rightarrow> (Inl connection_lost, w1)
      | (True, w1) \<Rightarrow>
          (Inr (case map_of (sim_catalog w1) t of Some cols \<Rightarrow> cols | None \<Rightarrow> []), w1))"

definition sim_row_count :: "string \<Rightarrow> sim \<Rightarrow> (error + int) \<times> sim" where
  "sim_row_count t w =
     (case map_of (sim_source w) t of
        None \<Rightarrow> (Inl no_such_table, w)
      | Some rows \<Rightarrow> (Inr (int (length rows)), w))"

definition sim_select_all :: "string \<Rightarrow> sim \<Rightarrow> (error + row list) \<times> sim" where
  "sim_select_all t w =
     (case map_of (sim_source w) t of
        None \<Rightarrow> (Inl no_such_table, w)
      | Some rows \<Rightarrow> (Inr rows, w))"

definition sim_insert ::
  "string \<Rightarrow> string \<Rightarrow> string list \<Rightarrow> py_value list \<Rightarrow> sim \<Rightarrow> error option \<times> sim" where
  "sim_insert sch t cols vals w =
     (case sim_pg_call w of
        (False, w1) \<Rightarrow> (Some connection_lost, w1)
      | (True, w1) \<Rightarrow>
          if list_ex (\<lambda>(c, v). c \<in> set (sim_not_null w1) \<and> v = PyNone) (zip cols vals)
          then (Some not_null_violation, w1)
          else (None, w1\<lparr>sim_pending := sim_pending w1 @ [(t, cols, vals)]\<rparr>))"

definition sim_rollback :: "sim \<Rightarrow> error option \<times> sim" where
  "sim_rollback w =
     (case sim_pg_call w of
        (False, w1) \<Rightarrow> (Some connection_lost, w1)
      | (True, w1) \<Rightarrow> (None, w1\<lparr>sim_pending := []\<rparr>))"

definition sim_commit :: "sim \<Rightarrow> error option \<times> sim" where
  "sim_commit w =
     (case sim_pg_call w of
        (False, w1) \<Rightarrow> (Some connection_lost, w1)
      | (True, w1) \<Rightarrow>
          (None, w1\<lparr>sim_committed := sim_committed w1 @ sim_pending w1, sim_pending := []\<rparr>))"

definition sim_pg_count :: "string \<Rightarrow> string \<Rightarrow> sim \<Rightarrow> (error + int) \<times> sim" where
  "sim_pg_count sch t w =
     (case sim_pg_call w of
        (False, w1) \<Rightarrow> (Inl connection_lost, w1)
      | (True, w1) \<Rightarrow>
          (case map_of (sim_catalog w1) t of
             None \<Rightarrow> (Inl undefined_table, w1)
           | Some cols \<Rightarrow>
               (Inr (int (length (filter (\<lambda>(t', cols', vals'). t' = t)
                                    (sim_committed w1 @ sim_pending w1)))), w1)))"

definition sim_backend :: "sim backend" where
  "sim_backend =
     \<lparr>sqlite3_connect = (\<lambda>path w. (None, w)),
      psycopg2_connect = (\<lambda>cfg w. (if sim_pg_up w then None else Some connection_refused, w)),
      exec_get_columns = sim_get_columns,
      exec_row_count = sim_row_count,
      exec_select_all = sim_select_all,
      exec_insert = sim_insert,
      pg_rollback = sim_rollback,
      pg_commit = sim_commit,
      exec_pg_count = sim_pg_count,
      sqlite_close = (\<lambda>w. w),
      pg_close = (\<lambda>w. w),
      json_loads = (\<lambda>s. s \<in> set [''{}'', ''[]'', ''null''])\<rparr>"

definition sim_config :: pg_config where
  "sim_config =
     \<lparr>host = ''postgres'', port = 5432, database = ''chatsuite'', user = ''admin'',
      password = ''secret'', schema = ''n8n''\<rparr>"

text \<open>
  The \<^verbatim>\<open>tag_entity\<close> scenario: one table in the destination, two rows in the source,
  the second with no name; the destination rejects a \<^verbatim>\<open>NULL\<close> name.
\<close>

definition tag_row1 :: row where
  "tag_row1 = [(''id'', PyInt 1), (''name'', PyStr ''urgent''),
               (''createdat'', PyStr ''2024-01-01''), (''updatedat'', PyStr ''2024-01-02'')]"

definition tag_row2 :: row where
  "tag_row2 = [(''id'', PyInt 2), (''name'', PyNone),
               (''createdat'', PyStr ''2024-02-01''), (''updatedat'', PyStr ''2024-02-02'')]"

definition tag_world :: sim where
  "tag_world =
     \<lparr>sim_catalog = [(''tag_entity'', [''id'', ''name'', ''createdAt'', ''updatedAt''])],
      sim_source = [(''tag_entity'', [tag_row1, tag_row2])],
      sim_not_null = [''name''],
      sim_pending = [],
      sim_committed = [],
      sim_pg_calls = None,
      sim_pg_up = True\<rparr>"

text \<open>
  The rows of \<open>tag_row1\<close> and \<open>tag_row2\<close> as the transformation leaves them for the
  destination columns of \<open>tag_world\<close>.
\<close>

definition tag_columns :: "string list" where
  "tag_columns = [''id'', ''name'', ''createdAt'', ''updatedAt'']"

definition tag_data1 :: "(string \<times> py_value) list" where
  "tag_data1 = [(''id'', PyInt 1), (''name'', PyStr ''urgent''),
                (''createdAt'', PyStr ''2024-01-01''), (''updatedAt'', PyStr ''2024-01-02'')]"

definition tag_data2 :: "(string \<times> py_value) list" where
  "tag_data2 = [(''id'', PyInt 2), (''name'', PyNone),
                (''createdAt'', PyStr ''2024-02-01''), (''updatedAt'', PyStr ''2024-02-02'')]"

text \<open>
  The same tables with the rejected row first, on a destination connection that is lost
  after two calls (the catalog query and the rejected insert).
\<close>

definition lost_world :: sim where
  "lost_world =
     tag_world\<lparr>sim_source := [(''tag_entity'', [tag_row2, tag_row1])],
               sim_pg_calls := Some 2\<rparr>"

text \<open>The same destination with an empty source table.\<close>

definition empty_world :: sim where
  "empty_world = tag_world\<lparr>sim_source := [(''tag_entity'', [])]\<rparr>"

text \<open>
  A row of the \<^verbatim>\<open>user\<close> table with three boolean columns, and a row of
  \<^verbatim>\<open>workflow_entity\<close> with two JSON columns, the second holding text that is no JSON.
\<close>

definition user_row :: row where
  "user_row = [(''id'', PyInt 7), (''mfaenabled'', PyInt 0), (''ispending'', PyInt 1),
               (''disabled'', PyNone)]"

definition user_columns :: "string list" where
  "user_columns = [''id'', ''mfaEnabled'', ''isPending'', ''disabled'']"

definition workflow_row :: row where
  "workflow_row = [(''id'', PyStr ''w1''), (''nodes'', PyStr ''[]''),
                   (''staticdata'', PyStr ''{oops'')]"

definition workflow_columns :: "string list" where
  "workflow_columns = [''id'', ''nodes'', ''staticData'']"

text \<open>
  A destination that also has the three tables \<^verbatim>\<open>verify_migration\<close> counts; the source
  has none of the three.
\<close>

definition full_world :: sim where
  "full_world =
     tag_world\<lparr>sim_catalog :=
       [(''tag_entity'', tag_columns), (''workflow_entity'', [''id'']),
        (''credentials_entity'', [''id'']), (''execution_entity'', [''id''])]\<rparr>"

text \<open>A destination that cannot be reached, and one that is lost after its first call.\<close>

definition down_world :: sim where
  "down_world = tag_world\<lparr>sim_pg_up := False\<rparr>"



section \<open>Properties\<close>

subsection \<open>The column-name mapping\<close>

lemma COLUMN_MAPPINGS_distinct:
  "distinct (map fst COLUMN_MAPPINGS) \<and>
   list_all (\<lambda>(t, m). distinct (map fst m)) COLUMN_MAPPINGS"
  by code_simp

text \<open>
  Every destination name of a table is left alone by that table's map: lowercased, it is
  no key of the map or the key of itself.
\<close>

lemma COLUMN_MAPPINGS_targets:
  "list_all
     (\<lambda>(t, m). list_all
        (\<lambda>(k, pg). map_of m (lower pg) = None \<or> map_of m (lower pg) = Some pg) m)
     COLUMN_MAPPINGS"
  by code_simp

lemma target_stable:
  assumes "map_of COLUMN_MAPPINGS table = Some m" and "map_of m k = Some pg"
  shows "map_of m (lower pg) = None \<or> map_of m (lower pg) = Some pg"
proof -
  from assms(1) have "(table, m) \<in> set COLUMN_MAPPINGS" by (rule map_of_SomeD)
  with COLUMN_MAPPINGS_targets
  have "list_all (\<lambda>(k, pg). map_of m (lower pg) = None \<or> map_of m (lower pg) = Some pg) m"
    by (auto simp: list_all_iff)
  moreover from assms(2) have "(k, pg) \<in> set m" by (rule map_of_SomeD)
  ultimately show ?thesis by (auto simp: list_all_iff)
qed

text \<open>
  Claim C3.  \<^verbatim>\<open>map_column_name\<close> returns a name for every table and column name (it
  is a function with no error case).  When the table has no rename map, or the
  lowercased column name is no key of the table's rename map, the result is the column
  name itself; and mapping the result again changes nothing.
\<close>

theorem map_column_name_total_idempotent:
  "((case map_of COLUMN_MAPPINGS table of
       None \<Rightarrow> True
     | Some m \<Rightarrow> map_of m (lower sqlite_col) = None)
     \<longrightarrow> map_column_name table sqlite_col = sqlite_col) \<and>
   map_column_name table (map_column_name table sqlite_col) = map_column_name table sqlite_col"
proof (cases "map_of COLUMN_MAPPINGS table")
  case None
  then show ?thesis by (simp add: map_column_name_def)
next
  case (Some m)
  note table = this
  show ?thesis
  proof (cases "map_of m (lower sqlite_col)")
    case None
    with table show ?thesis by (simp add: map_column_name_def)
  next
    case (Some pg)
    from target_stable [OF table Some] table Some
    show ?thesis by (auto simp: map_column_name_def)
  qed
qed

theorem map_column_name_total_idempotent_witness:
  "(case map_of COLUMN_MAPPINGS ''tag_entity'' of
      None \<Rightarrow> True
    | Some m \<Rightarrow> map_of m (lower ''name'') = None) \<and>
   map_column_name ''tag_entity'' ''name'' = ''name'' \<and>
   map_column_name ''tag_entity'' (map_column_name ''tag_entity'' ''name'')
     = map_column_name ''tag_entity'' ''name''"
proof -
  have h: "(case map_of COLUMN_MAPPINGS ''tag_entity'' of
              None \<Rightarrow> True
            | Some m \<Rightarrow> map_of m (lower ''name'') = None)"
    by code_simp
  from map_column_name_total_idempotent
         [where table = "''tag_entity''" and sqlite_col = "''name''"] h
  show ?thesis by blast
qed

lemma map_column_name_example:
  "map_column_name ''tag_entity'' ''CreatedAt'' = ''createdAt''"
  by code_simp

subsection \<open>A table that the destination does not have\<close>

text \<open>
  Claim C4.  When the catalog query returns no column for the table, \<^verbatim>\<open>migrate_table\<close>
  returns \<^verbatim>\<open>(0, 0)\<close> and raises nothing; all it does is print its heading, ask the
  catalog and print the warning: no row count is asked of the source.  This holds for
  every table name, those of \<open>MIGRATION_ORDER\<close> among them.
\<close>

theorem migrate_table_absent:
  assumes "exec_get_columns B (schema cfg) table_name w = (Inr [], w1)"
  shows "migrate_table B cfg table_name w =
           (Inr (0, 0),
            [Print_Migrating table_name, Db_Get_Columns (schema cfg) table_name,
             Print_Not_Found table_name],
            w1)"
  using assms by (simp add: migrate_table_def migrate_table_try_def)

theorem migrate_table_absent_witness:
  "exec_get_columns sim_backend (schema sim_config) ''user'' tag_world = (Inr [], tag_world) \<and>
   migrate_table sim_backend sim_config ''user'' tag_world =
     (Inr (0, 0),
      [Print_Migrating ''user'', Db_Get_Columns (schema sim_config) ''user'',
       Print_Not_Found ''user''],
      tag_world)"
proof -
  have h: "exec_get_columns sim_backend (schema sim_config) ''user'' tag_world
             = (Inr [], tag_world)"
    by (simp add: sim_backend_def sim_get_columns_def sim_pg_call_def tag_world_def)
  from migrate_table_absent [OF h] h show ?thesis by simp
qed

subsection \<open>An empty source table\<close>

text \<open>
  Claim C9.  When the destination has the table (the catalog query returns columns) and
  the row count of the source is zero, \<^verbatim>\<open>migrate_table\<close> returns \<^verbatim>\<open>(0, 0)\<close>; the
  events show the catalog query and the count and nothing after them but the message: no
  rows are fetched and no insert is attempted.
\<close>

theorem migrate_table_empty_source:
  assumes "exec_get_columns B (schema cfg) table_name w = (Inr pg_columns, w1)"
    and "pg_columns \<noteq> []"
    and "exec_row_count B table_name w1 = (Inr 0, w2)"
  shows "migrate_table B cfg table_name w =
           (Inr (0, 0),
            [Print_Migrating table_name, Db_Get_Columns (schema cfg) table_name,
             Db_Count table_name, Print_Empty table_name],
            w2)"
  using assms by (simp add: migrate_table_def migrate_table_try_def)

theorem migrate_table_empty_source_witness:
  "exec_get_columns sim_backend (schema sim_config) ''tag_entity'' empty_world
     = (Inr tag_columns, empty_world) \<and>
   tag_columns \<noteq> [] \<and>
   exec_row_count sim_backend ''tag_entity'' empty_world = (Inr 0, empty_world) \<and>
   migrate_table sim_backend sim_config ''tag_entity'' empty_world =
     (Inr (0, 0),
      [Print_Migrating ''tag_entity'', Db_Get_Columns (schema sim_config) ''tag_entity'',
       Db_Count ''tag_entity'', Print_Empty ''tag_entity''],
      empty_world)"
proof -
  have h1: "exec_get_columns sim_backend (schema sim_config) ''tag_entity'' empty_world
              = (Inr tag_columns, empty_world)"
    by code_simp
  have h2: "tag_columns \<noteq> []"
    by (simp add: tag_columns_def)
  have h3: "exec_row_count sim_backend ''tag_entity'' empty_world = (Inr 0, empty_world)"
    by code_simp
  from migrate_table_empty_source [OF h1 h2 h3] h1 h2 h3 show ?thesis by simp
qed

subsection \<open>Rows with nothing to write\<close>

lemma dict_setitem_not_Nil: "dict_setitem d k v \<noteq> []"
  by (cases d) (auto split: if_splits)

lemma row_getitem_own_key:
  "key \<in> set (row_keys row) \<Longrightarrow> \<exists>v. row_getitem row key = Inr v"
  by (induction row) (force simp: row_keys_def)+

lemma transform_keys_nonempty:
  "transform_keys loads t cols row keys data = (Inr data', evs) \<Longrightarrow> data \<noteq> [] \<Longrightarrow> data' \<noteq> []"
proof (induction keys arbitrary: data evs)
  case Nil
  then show ?case by simp
next
  case (Cons key keys)
  then show ?case
    by (auto simp: Let_def dict_setitem_not_Nil split: if_splits sum.splits prod.splits)
qed

lemma transform_keys_none_mapped:
  "\<forall>key \<in> set keys. map_column_name t key \<notin> set cols \<Longrightarrow>
   transform_keys loads t cols row keys data = (Inr data, [])"
  by (induction keys) (auto simp: Let_def)

lemma transform_keys_empty_result:
  "transform_keys loads t cols row keys data = (Inr [], evs) \<Longrightarrow>
   \<forall>key \<in> set keys. map_column_name t key \<notin> set cols"
proof (induction keys arbitrary: data evs)
  case Nil
  then show ?case by simp
next
  case (Cons key keys)
  show ?case
  proof (cases "map_column_name t key \<in> set cols")
    case True
    with Cons.prems show ?thesis
      by (auto simp: Let_def split: sum.splits prod.splits
               dest: transform_keys_nonempty [OF _ dict_setitem_not_Nil])
  next
    case False
    with Cons show ?thesis by (auto simp: Let_def)
  qed
qed

text \<open>
  The dict of a row is empty exactly when no column of the row maps to a column of the
  destination table.
\<close>

lemma transform_row_empty_iff:
  "fst (transform_row loads t cols row) = Inr [] \<longleftrightarrow>
   (\<forall>key \<in> set (row_keys row). map_column_name t key \<notin> set cols)"
proof
  assume "fst (transform_row loads t cols row) = Inr []"
  then obtain evs where "transform_keys loads t cols row (row_keys row) [] = (Inr [], evs)"
    by (cases "transform_keys loads t cols row (row_keys row) []") (simp add: transform_row_def)
  then show "\<forall>key \<in> set (row_keys row). map_column_name t key \<notin> set cols"
    by (rule transform_keys_empty_result)
next
  assume "\<forall>key \<in> set (row_keys row). map_column_name t key \<notin> set cols"
  then show "fst (transform_row loads t cols row) = Inr []"
    by (simp add: transform_row_def transform_keys_none_mapped)
qed

lemma transform_row_empty:
  assumes "fst (transform_row loads t cols row) = Inr []"
  shows "transform_row loads t cols row = (Inr [], [])"
proof -
  from assms have "\<forall>key \<in> set (row_keys row). map_column_name t key \<notin> set cols"
    by (simp add: transform_row_empty_iff)
  then show ?thesis by (simp add: transform_row_def transform_keys_none_mapped)
qed

text \<open>
  Claim C5.  A row whose dict of destination columns is empty is skipped: the loop body
  ends in \<^verbatim>\<open>skipped += 1; continue\<close> with no event at all (no insert is attempted)
  and the world as it was, and the loop goes on with the rows that remain, the skip
  counter one higher and the insert counter unchanged.
\<close>

theorem empty_mapping_skipped:
  assumes "fst (transform_row (json_loads B) table_name pg_columns row) = Inr []"
  shows "migrate_row B cfg table_name pg_columns row w = (Row_Skipped, [], w) \<and>
         migrate_rows B cfg table_name pg_columns (row # rows) inserted skipped w =
           migrate_rows B cfg table_name pg_columns rows inserted (skipped + 1) w"
proof -
  have "migrate_row B cfg table_name pg_columns row w = (Row_Skipped, [], w)"
    by (simp add: migrate_row_def transform_row_empty [OF assms])
  then show ?thesis by (simp split: prod.splits)
qed

theorem empty_mapping_skipped_witness:
  "fst (transform_row (json_loads sim_backend) ''installed_packages'' [''id'']
          [(''packagename'', PyStr ''foo'')]) = Inr [] \<and>
   migrate_row sim_backend sim_config ''installed_packages'' [''id'']
       [(''packagename'', PyStr ''foo'')] tag_world = (Row_Skipped, [], tag_world) \<and>
   migrate_rows sim_backend sim_config ''installed_packages'' [''id'']
       [[(''packagename'', PyStr ''foo'')]] 0 0 tag_world = (Inr (0, 1), [], tag_world)"
proof -
  have h: "fst (transform_row (json_loads sim_backend) ''installed_packages'' [''id'']
                  [(''packagename'', PyStr ''foo'')]) = Inr []"
    by code_simp
  from empty_mapping_skipped [OF h, of sim_config tag_world "[]" 0 0] h
  show ?thesis by simp
qed

subsection \<open>The counters of a table\<close>




subsection \<open>A row the destination rejects\<close>

text \<open>
  Claim C1, as amended.  When the insert of a row raises, the loop body prints the error,
  the columns and the first three values, and calls \<^verbatim>\<open>rollback\<close> on the destination
  connection; when that call returns, the row counts as skipped once and the loop goes
  on with the next row of the same table.  (The scope of the rollback is the connection's
  open transaction; the theorem says nothing about what it discards.)
\<close>

theorem insert_failure_skips_row:
  assumes "transform_row (json_loads B) table_name pg_columns row = (Inr data, evs)"
    and "data \<noteq> []"
    and "exec_insert B (schema cfg) table_name (map fst data) (map snd data) w = (Some e, w1)"
    and "pg_rollback B w1 = (None, w2)"
  shows "migrate_row B cfg table_name pg_columns row w =
           (Row_Skipped,
            evs @ [Db_Insert (schema cfg) table_name (map fst data) (map snd data),
                   Print_Row_Error e, Print_Columns (map fst data),
                   Print_Values (take 3 (map snd data)), Db_Rollback],
            w2) \<and>
         migrate_rows B cfg table_name pg_columns (row # rows) inserted skipped w =
           (case migrate_rows B cfg table_name pg_columns rows inserted (skipped + 1) w2 of
              (r, evs', w3) \<Rightarrow>
                (r,
                 (evs @ [Db_Insert (schema cfg) table_name (map fst data) (map snd data),
                         Print_Row_Error e, Print_Columns (map fst data),
                         Print_Values (take 3 (map snd data)), Db_Rollback]) @ evs',
                 w3))"
proof -
  have "migrate_row B cfg table_name pg_columns row w =
           (Row_Skipped,
            evs @ [Db_Insert (schema cfg) table_name (map fst data) (map snd data),
                   Print_Row_Error e, Print_Columns (map fst data),
                   Print_Values (take 3 (map snd data)), Db_Rollback],
            w2)"
    using assms by (simp add: migrate_row_def Let_def)
  then show ?thesis by simp
qed

theorem insert_failure_skips_row_witness:
  "transform_row (json_loads sim_backend) ''tag_entity'' tag_columns tag_row2
     = (Inr tag_data2, []) \<and>
   tag_data2 \<noteq> [] \<and>
   exec_insert sim_backend (schema sim_config) ''tag_entity'' (map fst tag_data2)
       (map snd tag_data2) tag_world = (Some not_null_violation, tag_world) \<and>
   pg_rollback sim_backend tag_world = (None, tag_world) \<and>
   migrate_row sim_backend sim_config ''tag_entity'' tag_columns tag_row2 tag_world =
     (Row_Skipped,
      [Db_Insert ''n8n'' ''tag_entity'' tag_columns
         [PyInt 2, PyNone, PyStr ''2024-02-01'', PyStr ''2024-02-02''],
       Print_Row_Error not_null_violation, Print_Columns tag_columns,
       Print_Values [PyInt 2, PyNone, PyStr ''2024-02-01''], Db_Rollback],
      tag_world)"
proof -
  have h1: "transform_row (json_loads sim_backend) ''tag_entity'' tag_columns tag_row2
              = (Inr tag_data2, [])"
    by code_simp
  have h2: "tag_data2 \<noteq> []"
    by (simp add: tag_data2_def)
  have h3: "exec_insert sim_backend (schema sim_config) ''tag_entity'' (map fst tag_data2)
              (map snd tag_data2) tag_world = (Some not_null_violation, tag_world)"
    by code_simp
  have h4: "pg_rollback sim_backend tag_world = (None, tag_world)"
    by code_simp
  have c: "map fst tag_data2 = tag_columns"
    "map snd tag_data2 = [PyInt 2, PyNone, PyStr ''2024-02-01'', PyStr ''2024-02-02'']"
    "schema sim_config = ''n8n''"
    by (simp_all add: tag_data2_def tag_columns_def sim_config_def)
  from insert_failure_skips_row [OF h1 h2 h3 h4, of "[]" 0 0] h1 h2 h3 h4
  show ?thesis by (simp add: c)
qed

text \<open>When the rollback of the row handler raises, the loop ends with that exception.\<close>

lemma insert_failure_rollback_raises:
  assumes "transform_row (json_loads B) table_name pg_columns row = (Inr data, evs)"
    and "data \<noteq> []"
    and "exec_insert B (schema cfg) table_name (map fst data) (map snd data) w = (Some e, w1)"
    and "pg_rollback B w1 = (Some e2, w2)"
  shows "migrate_rows B cfg table_name pg_columns (row # rows) inserted skipped w =
           (Inl e2,
            evs @ [Db_Insert (schema cfg) table_name (map fst data) (map snd data),
                   Print_Row_Error e, Print_Columns (map fst data),
                   Print_Values (take 3 (map snd data)), Db_Rollback],
            w2)"
  using assms by (simp add: migrate_row_def Let_def)

text \<open>
  Claim C1 fails as stated, in two ways.  On \<open>lost_world\<close> the first row is rejected and
  the rollback of the handler raises: the table is aborted and the second row is never
  attempted.  On \<open>tag_world\<close> the first row is inserted and the second rejected: the
  rollback after the second row empties the transaction, the insert of the first row
  with it, so the table reports one row inserted and commits none.
\<close>

theorem insert_failure_counterexample:
  "migrate_table sim_backend sim_config ''tag_entity'' lost_world =
     (Inl connection_lost,
      [Print_Migrating ''tag_entity'', Db_Get_Columns ''n8n'' ''tag_entity'',
       Db_Count ''tag_entity'', Print_Found 2, Db_Select_All ''tag_entity'',
       Db_Insert ''n8n'' ''tag_entity'' tag_columns
         [PyInt 2, PyNone, PyStr ''2024-02-01'', PyStr ''2024-02-02''],
       Print_Row_Error not_null_violation, Print_Columns tag_columns,
       Print_Values [PyInt 2, PyNone, PyStr ''2024-02-01''], Db_Rollback,
       Print_Table_Error ''tag_entity'' connection_lost, Db_Rollback],
      lost_world\<lparr>sim_pg_calls := Some 0\<rparr>) \<and>
   fst (migrate_table sim_backend sim_config ''tag_entity'' tag_world) = Inr (1, 1) \<and>
   fst (snd (migrate_table sim_backend sim_config ''tag_entity'' tag_world)) =
     [Print_Migrating ''tag_entity'', Db_Get_Columns ''n8n'' ''tag_entity'',
      Db_Count ''tag_entity'', Print_Found 2, Db_Select_All ''tag_entity'',
      Db_Insert ''n8n'' ''tag_entity'' tag_columns
        [PyInt 1, PyStr ''urgent'', PyStr ''2024-01-01'', PyStr ''2024-01-02''],
      Db_Insert ''n8n'' ''tag_entity'' tag_columns
        [PyInt 2, PyNone, PyStr ''2024-02-01'', PyStr ''2024-02-02''],
      Print_Row_Error not_null_violation, Print_Columns tag_columns,
      Print_Values [PyInt 2, PyNone, PyStr ''2024-02-01''], Db_Rollback,
      Db_Commit, Print_Migrated 1 1] \<and>
   sim_committed (snd (snd (migrate_table sim_backend sim_config ''tag_entity'' tag_world))) = []"
  by code_simp

subsection \<open>The row transformation\<close>

lemma lower_char_not_upper:
  "map_of (zip ''ABCDEFGHIJKLMNOPQRSTUVWXYZ'' ''abcdefghijklmnopqrstuvwxyz'') (lower_char c) = None"
  by (auto simp: lower_char_def split: if_splits)

lemma lower_char_idem: "lower_char (lower_char c) = lower_char c"
  using lower_char_not_upper [of c] by (simp add: lower_char_def [of "lower_char c"])

lemma lower_idem: "lower (lower s) = lower s"
  by (simp add: lower_def lower_char_idem)

text \<open>
  Two facts about the table: no map sends two keys to one destination name, and the
  destination name of a lowercase key is the key up to case.  With them, two column names
  with one destination name are equal up to case, so that a \<^verbatim>\<open>sqlite3.Row\<close> holds
  one value for them.
\<close>

lemma COLUMN_MAPPINGS_injective:
  "list_all (\<lambda>(t, m). distinct (map snd m)) COLUMN_MAPPINGS"
  by code_simp

lemma COLUMN_MAPPINGS_keys:
  "list_all (\<lambda>(t, m). list_all (\<lambda>(k, pg). lower k \<noteq> k \<or> lower pg = k) m) COLUMN_MAPPINGS"
  by code_simp

lemma distinct_snd_unique:
  "distinct (map snd m) \<Longrightarrow> (a, p) \<in> set m \<Longrightarrow> (b, p) \<in> set m \<Longrightarrow> a = b"
  by (induction m) (auto simp: rev_image_eqI)

lemma map_column_name_lower:
  assumes "map_column_name t k1 = map_column_name t k2"
  shows "lower k1 = lower k2"
proof (cases "map_of COLUMN_MAPPINGS t")
  case None
  with assms show ?thesis by (simp add: map_column_name_def)
next
  case (Some m)
  then have mem: "(t, m) \<in> set COLUMN_MAPPINGS" by (rule map_of_SomeD)
  from mem COLUMN_MAPPINGS_injective have inj: "distinct (map snd m)"
    by (auto simp: list_all_iff)
  from mem COLUMN_MAPPINGS_keys
  have keys: "\<And>k pg. (k, pg) \<in> set m \<Longrightarrow> lower k = k \<Longrightarrow> lower pg = k"
    by (fastforce simp: list_all_iff)
  have mapped: "lower pg = lower k" if "map_of m (lower k) = Some pg" for k pg
  proof -
    from that have "(lower k, pg) \<in> set m" by (rule map_of_SomeD)
    from keys [OF this] show ?thesis by (simp add: lower_idem)
  qed
  show ?thesis
  proof (cases "map_of m (lower k1)")
    case None
    note n1 = this
    show ?thesis
    proof (cases "map_of m (lower k2)")
      case None
      with n1 Some assms show ?thesis by (simp add: map_column_name_def)
    next
      case (Some p2)
      with n1 \<open>map_of COLUMN_MAPPINGS t = Some m\<close> assms have "k1 = p2"
        by (simp add: map_column_name_def)
      with mapped [OF Some] show ?thesis by simp
    qed
  next
    case (Some p1)
    note s1 = this
    show ?thesis
    proof (cases "map_of m (lower k2)")
      case None
      with s1 \<open>map_of COLUMN_MAPPINGS t = Some m\<close> assms have "k2 = p1"
        by (simp add: map_column_name_def)
      with mapped [OF s1] show ?thesis by simp
    next
      case (Some p2)
      with s1 \<open>map_of COLUMN_MAPPINGS t = Some m\<close> assms have "p1 = p2"
        by (simp add: map_column_name_def)
      with s1 Some have "(lower k1, p1) \<in> set m" "(lower k2, p1) \<in> set m"
        by (auto dest: map_of_SomeD)
      with inj show ?thesis by (rule distinct_snd_unique)
    qed
  qed
qed

lemma row_getitem_lower: "lower k1 = lower k2 \<Longrightarrow> row_getitem row k1 = row_getitem row k2"
  by (induction row) auto

lemma dict_setitem_set:
  "(c, x) \<in> set (dict_setitem d k v) \<Longrightarrow> (c, x) = (k, v) \<or> (c, x) \<in> set d"
  by (induction d) (auto split: if_splits)

lemma dict_setitem_keys: "fst ` set (dict_setitem d k v) = insert k (fst ` set d)"
proof (induction d)
  case Nil
  show ?case by simp
next
  case (Cons p d)
  obtain a b where p: "p = (a, b)" by (cases p)
  show ?case
  proof (cases "a = k")
    case True
    with p show ?thesis by auto
  next
    case False
    with p Cons show ?thesis by auto
  qed
qed

text \<open>
  The inner loop: every entry of the dict it returns was there before or was written for
  a key of the row, with the coerced value of that key, after the JSON check of that
  value; and every key with a column of the destination has an entry.
\<close>

lemma transform_keys_entries:
  "transform_keys loads t cols row keys data = (Inr data', evs) \<Longrightarrow> (c, x) \<in> set data' \<Longrightarrow>
   (c, x) \<in> set data \<or>
   (\<exists>key v. key \<in> set keys \<and> row_getitem row key = Inr v \<and> map_column_name t key = c \<and>
       c \<in> set cols \<and> x = coerce_boolean c v \<and> set (check_json loads c x) \<subseteq> set evs)"
proof (induction keys arbitrary: data evs)
  case Nil
  then show ?case by simp
next
  case (Cons key keys)
  show ?case
  proof (cases "map_column_name t key \<in> set cols")
    case False
    with Cons.prems have "transform_keys loads t cols row keys data = (Inr data', evs)"
      by (simp add: Let_def)
    from Cons.IH [OF this Cons.prems(2)] show ?thesis by auto
  next
    case True
    with Cons.prems obtain v evs' where
      get: "row_getitem row key = Inr v" and
      rest: "transform_keys loads t cols row keys
               (dict_setitem data (map_column_name t key)
                  (coerce_boolean (map_column_name t key) v)) = (Inr data', evs')" and
      evs: "evs = check_json loads (map_column_name t key)
                    (coerce_boolean (map_column_name t key) v) @ evs'"
      by (auto simp: Let_def split: sum.splits prod.splits)
    from Cons.IH [OF rest Cons.prems(2)] show ?thesis
    proof
      assume "(c, x) \<in> set (dict_setitem data (map_column_name t key)
                  (coerce_boolean (map_column_name t key) v))"
      then have "(c, x) = (map_column_name t key, coerce_boolean (map_column_name t key) v) \<or>
                 (c, x) \<in> set data"
        by (rule dict_setitem_set)
      then show ?thesis
      proof
        assume "(c, x) = (map_column_name t key, coerce_boolean (map_column_name t key) v)"
        with get True evs show ?thesis by auto
      next
        assume "(c, x) \<in> set data"
        then show ?thesis ..
      qed
    next
      assume "\<exists>key v. key \<in> set keys \<and> row_getitem row key = Inr v \<and>
         map_column_name t key = c \<and> c \<in> set cols \<and> x = coerce_boolean c v \<and>
         set (check_json loads c x) \<subseteq> set evs'"
      with evs show ?thesis by auto
    qed
  qed
qed

lemma transform_keys_covers:
  "transform_keys loads t cols row keys data = (Inr data', evs) \<Longrightarrow>
   fst ` set data \<union> {c \<in> map_column_name t ` set keys. c \<in> set cols} \<subseteq> fst ` set data'"
proof (induction keys arbitrary: data evs)
  case Nil
  then show ?case by simp
next
  case (Cons key keys)
  show ?case
  proof (cases "map_column_name t key \<in> set cols")
    case False
    with Cons.prems have "transform_keys loads t cols row keys data = (Inr data', evs)"
      by (simp add: Let_def)
    from Cons.IH [OF this] False show ?thesis by auto
  next
    case True
    with Cons.prems obtain v evs' where
      rest: "transform_keys loads t cols row keys
               (dict_setitem data (map_column_name t key)
                  (coerce_boolean (map_column_name t key) v)) = (Inr data', evs')"
      by (auto simp: Let_def split: sum.splits prod.splits)
    from Cons.IH [OF rest] show ?thesis by (auto simp: dict_setitem_keys)
  qed
qed

lemma transform_keys_total:
  "set keys \<subseteq> set (row_keys row) \<Longrightarrow>
   \<exists>data' evs. transform_keys loads t cols row keys data = (Inr data', evs)"
proof (induction keys arbitrary: data)
  case Nil
  then show ?case by simp
next
  case (Cons key keys)
  then obtain v where get: "row_getitem row key = Inr v"
    using row_getitem_own_key [of key row] by auto
  from Cons have sub: "set keys \<subseteq> set (row_keys row)" by simp
  show ?case
  proof (cases "map_column_name t key \<in> set cols")
    case False
    with Cons.IH [OF sub, of data] show ?thesis by (simp add: Let_def)
  next
    case True
    from Cons.IH [OF sub, of "dict_setitem data (map_column_name t key)
                                 (coerce_boolean (map_column_name t key) v)"]
    obtain data' evs' where
      "transform_keys loads t cols row keys
         (dict_setitem data (map_column_name t key)
            (coerce_boolean (map_column_name t key) v)) = (Inr data', evs')"
      by blast
    with True get show ?thesis by (simp add: Let_def)
  qed
qed

lemma transform_row_total:
  "\<exists>data evs. transform_row loads t cols row = (Inr data, evs)"
  by (simp add: transform_row_def transform_keys_total)

text \<open>
  The value the dict of a row holds for the destination column of a key of the row.
\<close>

lemma transform_row_value:
  assumes tr: "transform_row loads t cols row = (Inr data, evs)"
    and key: "key \<in> set (row_keys row)"
    and col: "map_column_name t key \<in> set cols"
    and get: "row_getitem row key = Inr v"
  shows "map_of data (map_column_name t key) = Some (coerce_boolean (map_column_name t key) v) \<and>
         set (check_json loads (map_column_name t key)
                (coerce_boolean (map_column_name t key) v)) \<subseteq> set evs"
proof -
  let ?c = "map_column_name t key"
  from tr have tk: "transform_keys loads t cols row (row_keys row) [] = (Inr data, evs)"
    by (simp add: transform_row_def)
  have only: "x = coerce_boolean ?c v \<and> set (check_json loads ?c x) \<subseteq> set evs"
    if "(?c, x) \<in> set data" for x
  proof -
    from transform_keys_entries [OF tk that] obtain key' v' where
      k': "row_getitem row key' = Inr v'" "map_column_name t key' = ?c"
          "x = coerce_boolean ?c v'" "set (check_json loads ?c x) \<subseteq> set evs"
      by auto
    from k'(2) have "lower key' = lower key" by (rule map_column_name_lower)
    then have "row_getitem row key' = row_getitem row key" by (rule row_getitem_lower)
    with k' get show ?thesis by simp
  qed
  from transform_keys_covers [OF tk] key col have "?c \<in> fst ` set data" by auto
  then obtain x where x: "map_of data ?c = Some x"
    by (metis (no_types, lifting) map_of_eq_None_iff not_None_eq)
  then have mem: "(?c, x) \<in> set data" by (rule map_of_SomeD)
  from only [OF mem] x show ?thesis by auto
qed

lemma coerce_boolean_cases:
  "pg_col \<in> set boolean_columns \<Longrightarrow>
   coerce_boolean pg_col v =
     (if v = PyNone then PyNone
      else if v \<in> {PyInt 0, PyFloat 0, PyStr [], PyBytes [], PyBool False} then PyBool False
      else PyBool True)"
  by (cases v) (auto simp: coerce_boolean_def)

lemma json_not_boolean: "pg_col \<in> set json_columns \<Longrightarrow> pg_col \<notin> set boolean_columns"
  by (auto simp: json_columns_def boolean_columns_def)


text \<open>
  Claim C2.  For every row and every column \<open>key\<close> of it whose destination column
  \<open>pg_col\<close> is a column of the destination table and one of \<open>boolean_columns\<close>, the
  transformation writes for \<open>pg_col\<close>: \<^verbatim>\<open>None\<close> when the stored value is \<^verbatim>\<open>None\<close>,
  \<^verbatim>\<open>False\<close> when it is falsy (integer or float zero, empty text, empty bytes,
  \<^verbatim>\<open>False\<close>), and \<^verbatim>\<open>True\<close> for every other value.
\<close>

theorem boolean_coercion:
  assumes "key \<in> set (row_keys row)"
    and "row_getitem row key = Inr v"
    and "map_column_name table_name key = pg_col"
    and "pg_col \<in> set pg_columns"
    and "pg_col \<in> set boolean_columns"
  shows "\<exists>data evs.
           transform_row loads table_name pg_columns row = (Inr data, evs) \<and>
           map_of data pg_col =
             Some (if v = PyNone then PyNone
                   else if v \<in> {PyInt 0, PyFloat 0, PyStr [], PyBytes [], PyBool False}
                        then PyBool False
                   else PyBool True)"
proof -
  obtain data evs where tr: "transform_row loads table_name pg_columns row = (Inr data, evs)"
    using transform_row_total by blast
  from assms(3,4) have col: "map_column_name table_name key \<in> set pg_columns" by simp
  from transform_row_value [OF tr assms(1) col assms(2)] assms(3)
  have "map_of data pg_col = Some (coerce_boolean pg_col v)" by simp
  with coerce_boolean_cases [OF assms(5)] tr show ?thesis by simp
qed

theorem boolean_coercion_witness:
  "''mfaenabled'' \<in> set (row_keys user_row) \<and>
   row_getitem user_row ''mfaenabled'' = Inr (PyInt 0) \<and>
   map_column_name ''user'' ''mfaenabled'' = ''mfaEnabled'' \<and>
   ''mfaEnabled'' \<in> set user_columns \<and>
   ''mfaEnabled'' \<in> set boolean_columns \<and>
   (\<exists>data evs.
      transform_row (json_loads sim_backend) ''user'' user_columns user_row = (Inr data, evs) \<and>
      map_of data ''mfaEnabled'' = Some (PyBool False)) \<and>
   transform_row (json_loads sim_backend) ''user'' user_columns user_row =
     (Inr [(''id'', PyInt 7), (''mfaEnabled'', PyBool False), (''isPending'', PyBool True),
           (''disabled'', PyNone)], [])"
proof -
  have h1: "''mfaenabled'' \<in> set (row_keys user_row)" by code_simp
  have h2: "row_getitem user_row ''mfaenabled'' = Inr (PyInt 0)" by code_simp
  have h3: "map_column_name ''user'' ''mfaenabled'' = ''mfaEnabled''" by code_simp
  have h4: "''mfaEnabled'' \<in> set user_columns" by code_simp
  have h5: "''mfaEnabled'' \<in> set boolean_columns" by code_simp
  have h6: "transform_row (json_loads sim_backend) ''user'' user_columns user_row =
     (Inr [(''id'', PyInt 7), (''mfaEnabled'', PyBool False), (''isPending'', PyBool True),
           (''disabled'', PyNone)], [])"
    by code_simp
  from boolean_coercion [OF h1 h2 h3 h4 h5, of "json_loads sim_backend"] h1 h2 h3 h4 h5 h6
  show ?thesis by simp
qed


text \<open>
  Claim C7.  For every row and every column \<open>key\<close> of it whose destination column
  \<open>pg_col\<close> is a column of the destination table and one of \<open>json_columns\<close> and whose
  value is the text \<open>s\<close>: \<^verbatim>\<open>json.loads(s)\<close> is called, and the value written for
  \<open>pg_col\<close> is the text \<open>s\<close> itself, whatever \<open>loads\<close> answers (the parse succeeds or
  raises).
\<close>

theorem json_passthrough:
  assumes "key \<in> set (row_keys row)"
    and "row_getitem row key = Inr (PyStr s)"
    and "map_column_name table_name key = pg_col"
    and "pg_col \<in> set pg_columns"
    and "pg_col \<in> set json_columns"
  shows "\<exists>data evs.
           transform_row loads table_name pg_columns row = (Inr data, evs) \<and>
           Json_Loads s (loads s) \<in> set evs \<and>
           map_of data pg_col = Some (PyStr s)"
proof -
  obtain data evs where tr: "transform_row loads table_name pg_columns row = (Inr data, evs)"
    using transform_row_total by blast
  from assms(3,4) have col: "map_column_name table_name key \<in> set pg_columns" by simp
  from json_not_boolean [OF assms(5)] have same: "coerce_boolean pg_col (PyStr s) = PyStr s"
    by (simp add: coerce_boolean_def)
  from transform_row_value [OF tr assms(1) col assms(2)] assms(3) same
  have "map_of data pg_col = Some (PyStr s)"
    and "set (check_json loads pg_col (PyStr s)) \<subseteq> set evs"
    by simp_all
  with assms(5) tr show ?thesis by (simp add: check_json_def)
qed

theorem json_passthrough_witness:
  "''staticdata'' \<in> set (row_keys workflow_row) \<and>
   row_getitem workflow_row ''staticdata'' = Inr (PyStr ''{oops'') \<and>
   map_column_name ''workflow_entity'' ''staticdata'' = ''staticData'' \<and>
   ''staticData'' \<in> set workflow_columns \<and>
   ''staticData'' \<in> set json_columns \<and>
   (\<exists>data evs.
      transform_row (json_loads sim_backend) ''workflow_entity'' workflow_columns workflow_row
        = (Inr data, evs) \<and>
      Json_Loads ''{oops'' (json_loads sim_backend ''{oops'') \<in> set evs \<and>
      map_of data ''staticData'' = Some (PyStr ''{oops'')) \<and>
   transform_row (json_loads sim_backend) ''workflow_entity'' workflow_columns workflow_row =
     (Inr [(''id'', PyStr ''w1''), (''nodes'', PyStr ''[]''), (''staticData'', PyStr ''{oops'')],
      [Json_Loads ''[]'' True, Json_Loads ''{oops'' False])"
proof -
  have h1: "''staticdata'' \<in> set (row_keys workflow_row)" by code_simp
  have h2: "row_getitem workflow_row ''staticdata'' = Inr (PyStr ''{oops'')" by code_simp
  have h3: "map_column_name ''workflow_entity'' ''staticdata'' = ''staticData''" by code_simp
  have h4: "''staticData'' \<in> set workflow_columns" by code_simp
  have h5: "''staticData'' \<in> set json_columns" by code_simp
  have h6: "transform_row (json_loads sim_backend) ''workflow_entity'' workflow_columns
              workflow_row =
     (Inr [(''id'', PyStr ''w1''), (''nodes'', PyStr ''[]''), (''staticData'', PyStr ''{oops'')],
      [Json_Loads ''[]'' True, Json_Loads ''{oops'' False])"
    by code_simp
  from json_passthrough [OF h1 h2 h3 h4 h5, of "json_loads sim_backend"] h1 h2 h3 h4 h5 h6
  show ?thesis by simp
qed

subsection \<open>The run over all tables\<close>



















subsection \<open>The exit code and the connections\<close>

lemma connect_flags:
  assumes "connect B sqlite_path cfg \<lparr>sqlite_conn = False, pg_conn = False, stats = []\<rparr> w
             = (r, m, evs, w1)"
  shows "(sqlite_conn m \<longleftrightarrow> fst (sqlite3_connect B sqlite_path w) = None) \<and>
         (pg_conn m \<longleftrightarrow> fst (sqlite3_connect B sqlite_path w) = None \<and>
            fst (psycopg2_connect B cfg (snd (sqlite3_connect B sqlite_path w))) = None) \<and>
         (r = None \<longleftrightarrow> pg_conn m)"
  using assms by (auto simp: connect_def Let_def split: prod.splits option.splits)

lemma main_try_flags:
  assumes "main_try B sqlite_path cfg w = (r, m, evs, w1)"
  shows "(sqlite_conn m \<longleftrightarrow> fst (sqlite3_connect B sqlite_path w) = None) \<and>
         (pg_conn m \<longleftrightarrow> fst (sqlite3_connect B sqlite_path w) = None \<and>
            fst (psycopg2_connect B cfg (snd (sqlite3_connect B sqlite_path w))) = None) \<and>
         (r = None \<longrightarrow> sqlite_conn m \<and> pg_conn m)"
proof -
  obtain r0 m0 evs0 w0 where
    c: "connect B sqlite_path cfg \<lparr>sqlite_conn = False, pg_conn = False, stats = []\<rparr> w
          = (r0, m0, evs0, w0)"
    by (cases "connect B sqlite_path cfg \<lparr>sqlite_conn = False, pg_conn = False, stats = []\<rparr> w")
  note f = connect_flags [OF c]
  from assms c have "sqlite_conn m = sqlite_conn m0 \<and> pg_conn m = pg_conn m0 \<and>
                     (r = None \<longrightarrow> r0 = None)"
    by (auto simp: main_try_def split: prod.splits option.splits sum.splits)
  with f show ?thesis by auto
qed

lemma main_try_completes:
  "fst (main_try B sqlite_path cfg w) = None \<longleftrightarrow>
   (\<exists>m1 evs1 w2 stats' evs2 w3 evs3 w4.
      connect B sqlite_path cfg \<lparr>sqlite_conn = False, pg_conn = False, stats = []\<rparr> w
        = (None, m1, evs1, w2) \<and>
      migrate_all B cfg [] w2 = (Inr stats', evs2, w3) \<and>
      verify_migration B cfg w3 = (None, evs3, w4))"
proof -
  obtain r0 m0 evs0 w0 where
    c: "connect B sqlite_path cfg \<lparr>sqlite_conn = False, pg_conn = False, stats = []\<rparr> w
          = (r0, m0, evs0, w0)"
    by (cases "connect B sqlite_path cfg \<lparr>sqlite_conn = False, pg_conn = False, stats = []\<rparr> w")
  have st: "stats m0 = []"
    using c by (auto simp: connect_def Let_def split: prod.splits option.splits)
  show ?thesis
  proof (cases r0)
    case (Some e)
    with c show ?thesis by (simp add: main_try_def)
  next
    case None
    obtain r1 evs1 w1 where a: "migrate_all B cfg [] w0 = (r1, evs1, w1)"
      by (cases "migrate_all B cfg [] w0")
    show ?thesis
    proof (cases r1)
      case (Inl e)
      with c None a st show ?thesis by (simp add: main_try_def)
    next
      case (Inr stats')
      obtain r2 evs2 w2 where v: "verify_migration B cfg w1 = (r2, evs2, w2)"
        by (cases "verify_migration B cfg w1")
      with c None a st Inr show ?thesis by (cases r2) (simp_all add: main_try_def)
    qed
  qed
qed


text \<open>
  Claim C8.  Let the \<^verbatim>\<open>try\<close> of \<^verbatim>\<open>main\<close> end with \<open>r\<close> (\<open>None\<close>: it completed;
  \<open>Some e\<close>: the exception \<open>e\<close> left it).  The exit code is 0 when it completed and 1
  otherwise; in the second case the message and the trace of \<open>e\<close> (on the error stream)
  are printed.  It completes exactly when both connections are made, \<^verbatim>\<open>migrate_all\<close>
  returns (with any counters) and \<^verbatim>\<open>verify_migration\<close> returns.  In both cases the run
  ends by closing each connection that was made: the source connection when
  \<^verbatim>\<open>sqlite3.connect\<close> returned, the destination connection when
  \<^verbatim>\<open>psycopg2.connect\<close> returned too -- both of them whenever the run completed.
\<close>

theorem main_exit_code:
  assumes "main_try B sqlite_path cfg w = (r, m, evs, w1)"
  shows "main B sqlite_path cfg w =
           ((case r of None \<Rightarrow> 0 | Some e \<Rightarrow> 1),
            evs @ (case r of None \<Rightarrow> [] | Some e \<Rightarrow> [Print_Failed e, Stderr_Traceback e]) @
              (if sqlite_conn m then [Db_Sqlite_Close] else []) @
              (if pg_conn m then [Db_Pg_Close] else []),
            (if pg_conn m then pg_close B else id)
              ((if sqlite_conn m then sqlite_close B else id) w1)) \<and>
         (sqlite_conn m \<longleftrightarrow> fst (sqlite3_connect B sqlite_path w) = None) \<and>
         (pg_conn m \<longleftrightarrow> fst (sqlite3_connect B sqlite_path w) = None \<and>
            fst (psycopg2_connect B cfg (snd (sqlite3_connect B sqlite_path w))) = None) \<and>
         (r = None \<longrightarrow> sqlite_conn m \<and> pg_conn m) \<and>
         (r = None \<longleftrightarrow>
            (\<exists>m1 evs1 w2 stats' evs2 w3 evs3 w4.
               connect B sqlite_path cfg \<lparr>sqlite_conn = False, pg_conn = False, stats = []\<rparr> w
                 = (None, m1, evs1, w2) \<and>
               migrate_all B cfg [] w2 = (Inr stats', evs2, w3) \<and>
               verify_migration B cfg w3 = (None, evs3, w4)))"
proof -
  have run: "main B sqlite_path cfg w =
           ((case r of None \<Rightarrow> 0 | Some e \<Rightarrow> 1),
            evs @ (case r of None \<Rightarrow> [] | Some e \<Rightarrow> [Print_Failed e, Stderr_Traceback e]) @
              (if sqlite_conn m then [Db_Sqlite_Close] else []) @
              (if pg_conn m then [Db_Pg_Close] else []),
            (if pg_conn m then pg_close B else id)
              ((if sqlite_conn m then sqlite_close B else id) w1))"
    using assms by (cases r) (simp_all add: main_def close_def)
  from main_try_completes [of B sqlite_path cfg w] assms
  have "r = None \<longleftrightarrow>
            (\<exists>m1 evs1 w2 stats' evs2 w3 evs3 w4.
               connect B sqlite_path cfg \<lparr>sqlite_conn = False, pg_conn = False, stats = []\<rparr> w
                 = (None, m1, evs1, w2) \<and>
               migrate_all B cfg [] w2 = (Inr stats', evs2, w3) \<and>
               verify_migration B cfg w3 = (None, evs3, w4))"
    by simp
  with run main_try_flags [OF assms] show ?thesis by blast
qed

theorem main_exit_code_witness:
  "main_try sim_backend ''n8n.sqlite'' sim_config down_world =
     (Some connection_refused,
      \<lparr>sqlite_conn = True, pg_conn = False, stats = []\<rparr>,
      [Print_Connecting_Sqlite ''n8n.sqlite'', Db_Sqlite_Connect ''n8n.sqlite'',
       Print_Connecting_Pg ''postgres'' 5432 ''chatsuite'', Db_Pg_Connect],
      down_world) \<and>
   main sim_backend ''n8n.sqlite'' sim_config down_world =
     (1,
      [Print_Connecting_Sqlite ''n8n.sqlite'', Db_Sqlite_Connect ''n8n.sqlite'',
       Print_Connecting_Pg ''postgres'' 5432 ''chatsuite'', Db_Pg_Connect,
       Print_Failed connection_refused, Stderr_Traceback connection_refused,
       Db_Sqlite_Close],
      down_world) \<and>
   fst (main_try sim_backend ''n8n.sqlite'' sim_config full_world) = None \<and>
   fst (main sim_backend ''n8n.sqlite'' sim_config full_world) = 0 \<and>
   stats (fst (snd (main_try sim_backend ''n8n.sqlite'' sim_config full_world))) ! 12
     = (''tag_entity'', 1, 1)"
proof -
  have h: "main_try sim_backend ''n8n.sqlite'' sim_config down_world =
     (Some connection_refused,
      \<lparr>sqlite_conn = True, pg_conn = False, stats = []\<rparr>,
      [Print_Connecting_Sqlite ''n8n.sqlite'', Db_Sqlite_Connect ''n8n.sqlite'',
       Print_Connecting_Pg ''postgres'' 5432 ''chatsuite'', Db_Pg_Connect],
      down_world)"
    by code_simp
  have c: "sqlite_close sim_backend = (\<lambda>w. w)" "pg_close sim_backend = (\<lambda>w. w)"
    by (simp_all add: sim_backend_def)
  from main_exit_code [OF h] c
  have down: "main sim_backend ''n8n.sqlite'' sim_config down_world =
     (1,
      [Print_Connecting_Sqlite ''n8n.sqlite'', Db_Sqlite_Connect ''n8n.sqlite'',
       Print_Connecting_Pg ''postgres'' 5432 ''chatsuite'', Db_Pg_Connect,
       Print_Failed connection_refused, Stderr_Traceback connection_refused,
       Db_Sqlite_Close],
      down_world)"
    by simp
  have g: "fst (main_try sim_backend ''n8n.sqlite'' sim_config full_world) = None"
    by code_simp
  then obtain m evs w1 where
    g': "main_try sim_backend ''n8n.sqlite'' sim_config full_world = (None, m, evs, w1)"
    by (cases "main_try sim_backend ''n8n.sqlite'' sim_config full_world") auto
  from main_exit_code [OF g']
  have full: "fst (main sim_backend ''n8n.sqlite'' sim_config full_world) = 0"
    by simp
  have st: "stats (fst (snd (main_try sim_backend ''n8n.sqlite'' sim_config full_world))) ! 12
     = (''tag_entity'', 1, 1)"
    by code_simp
  from h down g full st show ?thesis by simp
qed

end
